theory Spec2Isabelle
  imports Main "HOL-Library.Word"
begin

unbundle bit_operations_syntax

section \<open>Adder\_alice.c: the client of the homomorphic adder\<close>

text \<open>
  The program is one function, \<^verbatim>\<open>main\<close>, over the TFHE library. The library is not part
  of the repository, so its entry points are parameters of the model; everything that
  \<^verbatim>\<open>main\<close> itself does (constants, loops, the order of the calls, which value goes
  where, the files it opens) is translated from the source.
\<close>

subsection \<open>Machine types\<close>

type_synonym int32_t = "32 word"
type_synonym uint32_t = "32 word"
type_synonym byte = "8 word"

subsection \<open>The library entry points that main calls\<close>

text \<open>
  \<open>'p\<close> is \<^verbatim>\<open>TFheGateBootstrappingParameterSet\<close>, \<open>'k\<close> is
  \<^verbatim>\<open>TFheGateBootstrappingSecretKeySet\<close>, \<open>'c\<close> is \<^verbatim>\<open>LweSample\<close> and \<open>'g\<close> is the state
  of the library's process-wide random generator. A call that reads or writes the
  generator takes its state and returns the new one.
  \<open>new_LweSample\<close> is the content of one cell of a freshly allocated ciphertext array.
  \<open>new_tfheGateBootstrappingSecretKeySet_fromFile\<close> is given the bytes of the stream;
  \<open>None\<close> means that the library rejects them and does not return.
  \<open>export_gate_bootstrapping_ciphertext_toFile\<close> gives the bytes that the library sends
  to the stream for one ciphertext.
\<close>

record ('p, 'k, 'c, 'g) tfhe =
  new_default_gate_bootstrapping_parameters :: "int32_t \<Rightarrow> 'p"
  tfhe_random_generator_setSeed :: "uint32_t list \<Rightarrow> nat \<Rightarrow> 'g \<Rightarrow> 'g"
  new_random_gate_bootstrapping_secret_keyset :: "'p \<Rightarrow> 'g \<Rightarrow> 'k \<times> 'g"
  new_LweSample :: "'p \<Rightarrow> 'c"
  bootsSymEncrypt :: "int32_t \<Rightarrow> 'k \<Rightarrow> 'g \<Rightarrow> 'c \<times> 'g"
  new_tfheGateBootstrappingSecretKeySet_fromFile :: "byte list \<Rightarrow> 'k option"
  export_gate_bootstrapping_ciphertext_toFile :: "'c \<Rightarrow> 'p \<Rightarrow> byte list"

subsection \<open>The calls of main, in the order it makes them\<close>

text \<open>
  One constructor for each function that \<^verbatim>\<open>main\<close> calls, with the arguments of the call.
  A stream argument is the path the stream is open on, \<open>None\<close> for a null pointer.
  \<open>Call_bootsSymEncrypt i m k\<close> is the call on cell \<open>i\<close> of the array with message \<open>m\<close>
  and key \<open>k\<close>.
\<close>

datatype ('p, 'k, 'c) call =
    Call_new_default_gate_bootstrapping_parameters int32_t
  | Call_tfhe_random_generator_setSeed "uint32_t list" nat
  | Call_new_random_gate_bootstrapping_secret_keyset 'p
  | Call_new_gate_bootstrapping_ciphertext_array nat 'p
  | Call_bootsSymEncrypt nat int32_t 'k
  | Call_printf string
  | Call_fopen string string
  | Call_new_tfheGateBootstrappingSecretKeySet_fromFile "string option"
  | Call_fclose "string option"
  | Call_export_gate_bootstrapping_ciphertext_toFile "string option" 'c 'p
  | Call_delete_gate_bootstrapping_ciphertext_array nat "'c list"
  | Call_delete_gate_bootstrapping_secret_keyset 'k
  | Call_delete_gate_bootstrapping_parameters 'p

subsection \<open>The process and its surroundings\<close>

text \<open>
  What the program finds when it starts: the state of the random generator, the files
  that exist with their bytes, the paths the process may create or truncate, and whether
  a write to an open stream reaches the file.
\<close>

record 'g env =
  generator0 :: 'g
  files0 :: "string \<rightharpoonup> byte list"
  may_create :: "string \<Rightarrow> bool"
  write_ok :: bool

record ('p, 'k, 'c, 'g) world =
  generator :: 'g
  files :: "string \<rightharpoonup> byte list"
  creatable :: "string \<Rightarrow> bool"
  writes_ok :: bool
  stdout :: string
  calls :: "('p, 'k, 'c) call list"

definition start :: "'g env \<Rightarrow> ('p, 'k, 'c, 'g) world" where
  "start E = \<lparr>generator = generator0 E, files = files0 E, creatable = may_create E,
              writes_ok = write_ok E, stdout = [], calls = []\<rparr>"

definition called :: "('p, 'k, 'c) call \<Rightarrow> ('p, 'k, 'c, 'g) world \<Rightarrow> ('p, 'k, 'c, 'g) world" where
  "called c w = w\<lparr>calls := calls w @ [c]\<rparr>"

text \<open>
  How a run ends: \<^verbatim>\<open>main\<close> reaches its closing brace (exit status 0), or it has passed a
  null stream to the library, after which C defines nothing, or the library has refused
  the key file and has not returned.
\<close>

datatype outcome = Returned int32_t | Undefined_behaviour | Library_stopped

subsection \<open>stdio\<close>

text \<open>
  \<^verbatim>\<open>fopen\<close> for the two modes the program uses. \<^verbatim>\<open>"rb"\<close> gives a stream when the file
  exists; \<^verbatim>\<open>"wb"\<close> creates the file or cuts it to length 0 when the process may do so.
  The result is the stream, \<open>None\<close> for the null pointer.
\<close>

definition fopen ::
  "string \<Rightarrow> string \<Rightarrow> ('p, 'k, 'c, 'g) world \<Rightarrow> string option \<times> ('p, 'k, 'c, 'g) world" where
  "fopen path mode w =
     (let w' = called (Call_fopen path mode) w in
      if mode = ''rb'' then
        (if files w' path = None then (None, w') else (Some path, w'))
      else if mode = ''wb'' then
        (if creatable w' path then (Some path, w'\<lparr>files := (files w')(path \<mapsto> [])\<rparr>)
         else (None, w'))
      else (None, w'))"

definition fclose :: "string option \<Rightarrow> ('p, 'k, 'c, 'g) world \<Rightarrow> ('p, 'k, 'c, 'g) world" where
  "fclose stream w = called (Call_fclose stream) w"

definition printf :: "string \<Rightarrow> ('p, 'k, 'c, 'g) world \<Rightarrow> ('p, 'k, 'c, 'g) world" where
  "printf s w = (called (Call_printf s) w)\<lparr>stdout := stdout w @ s\<rparr>"

text \<open>The bytes that a stream opened for reading delivers.\<close>

definition stream_bytes :: "('p, 'k, 'c, 'g) world \<Rightarrow> string \<Rightarrow> byte list" where
  "stream_bytes w path = (case files w path of None \<Rightarrow> [] | Some bs \<Rightarrow> bs)"

text \<open>Bytes sent to an open stream are appended to its file, unless the write fails.\<close>

definition fwrite :: "string \<Rightarrow> byte list \<Rightarrow> ('p, 'k, 'c, 'g) world \<Rightarrow> ('p, 'k, 'c, 'g) world" where
  "fwrite path bs w =
     (if writes_ok w then
        (case files w path of
           None \<Rightarrow> w
         | Some old \<Rightarrow> w\<lparr>files := (files w)(path \<mapsto> old @ bs)\<rparr>)
      else w)"

subsection \<open>The constants of main\<close>

definition minimum_lambda :: int32_t where
  "minimum_lambda = 110"

definition seed :: "uint32_t list" where
  "seed = [314, 1592, 657]"

definition plaintext1 :: int32_t where
  "plaintext1 = 1073741823"

definition plaintext2 :: int32_t where
  "plaintext2 = 1073741823"

definition plaintext3 :: int32_t where
  "plaintext3 = 0"

definition greeting :: string where
  "greeting = ''Hi there! Today, I will ask the cloud the calculation results of the two data you input.'' @ [CHR 0x0A]"

subsection \<open>The loops of main\<close>

text \<open>
  The message of one encryption call, \<^verbatim>\<open>(plaintext>>i)&1\<close>: the shift of a signed value
  is the arithmetic one.
\<close>

definition message_bit :: "int32_t \<Rightarrow> nat \<Rightarrow> int32_t" where
  "message_bit plaintext i = (signed_drop_bit i plaintext) AND 1"

text \<open>
  \<^verbatim>\<open>for (int i=0; i<32; i++) bootsSymEncrypt(&ciphertext[i], (plaintext>>i)&1, key);\<close>
  The source has this loop three times, for \<^verbatim>\<open>plaintext1\<close>, \<^verbatim>\<open>plaintext2\<close> and
  \<^verbatim>\<open>plaintext3\<close>.
\<close>

function encrypt_loop ::
  "('p, 'k, 'c, 'g) tfhe \<Rightarrow> int32_t \<Rightarrow> 'k \<Rightarrow> nat \<Rightarrow> 'c list \<Rightarrow> ('p, 'k, 'c, 'g) world
     \<Rightarrow> 'c list \<times> ('p, 'k, 'c, 'g) world" where
  "encrypt_loop L plaintext key i ciphertext w =
     (if i < 32 then
        (let (c, g) = bootsSymEncrypt L (message_bit plaintext i) key (generator w);
             w' = called (Call_bootsSymEncrypt i (message_bit plaintext i) key) w
         in encrypt_loop L plaintext key (Suc i) (ciphertext[i := c]) (w'\<lparr>generator := g\<rparr>))
      else (ciphertext, w))"
  by pat_completeness auto
termination
  by (relation "measure (\<lambda>(L, plaintext, key, i, ciphertext, w). 32 - i)") auto

text \<open>
  \<^verbatim>\<open>for (int i=0; i<32; i++) export_gate_bootstrapping_ciphertext_toFile(cloud_data, &ciphertext[i], params);\<close>
  on an open stream.
\<close>

function export_loop ::
  "('p, 'k, 'c, 'g) tfhe \<Rightarrow> string \<Rightarrow> 'p \<Rightarrow> nat \<Rightarrow> 'c list \<Rightarrow> ('p, 'k, 'c, 'g) world
     \<Rightarrow> ('p, 'k, 'c, 'g) world" where
  "export_loop L cloud_data params i ciphertext w =
     (if i < 32 then
        (let w' = called (Call_export_gate_bootstrapping_ciphertext_toFile
                            (Some cloud_data) (ciphertext ! i) params) w
         in export_loop L cloud_data params (Suc i) ciphertext
              (fwrite cloud_data
                 (export_gate_bootstrapping_ciphertext_toFile L (ciphertext ! i) params) w'))
      else w)"
  by pat_completeness auto
termination
  by (relation "measure (\<lambda>(L, cloud_data, params, i, ciphertext, w). 32 - i)") auto

declare encrypt_loop.simps [simp del] export_loop.simps [simp del]

definition new_gate_bootstrapping_ciphertext_array ::
  "('p, 'k, 'c, 'g) tfhe \<Rightarrow> nat \<Rightarrow> 'p \<Rightarrow> ('p, 'k, 'c, 'g) world
     \<Rightarrow> 'c list \<times> ('p, 'k, 'c, 'g) world" where
  "new_gate_bootstrapping_ciphertext_array L n params w =
     (replicate n (new_LweSample L params),
      called (Call_new_gate_bootstrapping_ciphertext_array n params) w)"

subsection \<open>main\<close>

text \<open>Lines 8 to 37: parameters, seeding, key generation, the three encryptions, the greeting.\<close>

definition main_encrypt ::
  "('p, 'k, 'c, 'g) tfhe \<Rightarrow> ('p, 'k, 'c, 'g) world
     \<Rightarrow> ('p \<times> 'k \<times> 'c list \<times> 'c list \<times> 'c list) \<times> ('p, 'k, 'c, 'g) world" where
  "main_encrypt L w0 =
     (let params = new_default_gate_bootstrapping_parameters L minimum_lambda;
          w1 = called (Call_new_default_gate_bootstrapping_parameters minimum_lambda) w0;
          w2 = (called (Call_tfhe_random_generator_setSeed seed 3) w1)
                 \<lparr>generator := tfhe_random_generator_setSeed L seed 3 (generator w1)\<rparr>;
          (key, g) = new_random_gate_bootstrapping_secret_keyset L params (generator w2);
          w3 = (called (Call_new_random_gate_bootstrapping_secret_keyset params) w2)
                 \<lparr>generator := g\<rparr>;
          (ciphertext1, w4) = new_gate_bootstrapping_ciphertext_array L 32 params w3;
          (ciphertext1, w5) = encrypt_loop L plaintext1 key 0 ciphertext1 w4;
          (ciphertext2, w6) = new_gate_bootstrapping_ciphertext_array L 32 params w5;
          (ciphertext2, w7) = encrypt_loop L plaintext2 key 0 ciphertext2 w6;
          (ciphertext3, w8) = new_gate_bootstrapping_ciphertext_array L 32 params w7;
          (ciphertext3, w9) = encrypt_loop L plaintext3 key 0 ciphertext3 w8;
          w10 = printf greeting w9
      in ((params, key, ciphertext1, ciphertext2, ciphertext3), w10))"

text \<open>
  Lines 50 to 64, once \<^verbatim>\<open>fopen("cloud.data","wb")\<close> has returned. No result is tested:
  a null stream goes to the first export call.
\<close>

definition main_export ::
  "('p, 'k, 'c, 'g) tfhe \<Rightarrow> 'p \<Rightarrow> 'k \<Rightarrow> 'c list \<Rightarrow> 'c list \<Rightarrow> 'c list \<Rightarrow> string option
     \<Rightarrow> ('p, 'k, 'c, 'g) world \<Rightarrow> outcome \<times> ('p, 'k, 'c, 'g) world" where
  "main_export L params key ciphertext1 ciphertext2 ciphertext3 cloud_data w =
     (case cloud_data of
        None \<Rightarrow>
          (Undefined_behaviour,
           called (Call_export_gate_bootstrapping_ciphertext_toFile None (ciphertext1 ! 0) params) w)
      | Some stream \<Rightarrow>
          (let w1 = export_loop L stream params 0 ciphertext1 w;
               w2 = export_loop L stream params 0 ciphertext2 w1;
               w3 = export_loop L stream params 0 ciphertext3 w2;
               w4 = fclose cloud_data w3;
               w5 = called (Call_delete_gate_bootstrapping_ciphertext_array 32 ciphertext2) w4;
               w6 = called (Call_delete_gate_bootstrapping_ciphertext_array 32 ciphertext1) w5;
               w7 = called (Call_delete_gate_bootstrapping_ciphertext_array 32 ciphertext3) w6;
               w8 = called (Call_delete_gate_bootstrapping_secret_keyset key) w7;
               w9 = called (Call_delete_gate_bootstrapping_parameters params) w8
           in (Returned 0, w9)))"

text \<open>
  The whole of \<^verbatim>\<open>main\<close>. Lines 40 to 42 read the key file: the stream that \<^verbatim>\<open>fopen\<close>
  returns goes to the library untested, and the key set \<^verbatim>\<open>bk\<close> that comes back is bound
  and not mentioned again.
\<close>

definition main ::
  "('p, 'k, 'c, 'g) tfhe \<Rightarrow> 'g env \<Rightarrow> outcome \<times> ('p, 'k, 'c, 'g) world" where
  "main L E =
     (let ((params, key, ciphertext1, ciphertext2, ciphertext3), w) = main_encrypt L (start E);
          (secret_key, w1) = fopen ''secret.key'' ''rb'' w;
          w2 = called (Call_new_tfheGateBootstrappingSecretKeySet_fromFile secret_key) w1
      in case secret_key of
           None \<Rightarrow> (Undefined_behaviour, w2)
         | Some stream \<Rightarrow>
             (case new_tfheGateBootstrappingSecretKeySet_fromFile L (stream_bytes w2 stream) of
                None \<Rightarrow> (Library_stopped, w2)
              | Some bk \<Rightarrow>
                  (let w3 = fclose secret_key w2;
                       (cloud_data, w4) = fopen ''cloud.data'' ''wb'' w3
                   in main_export L params key ciphertext1 ciphertext2 ciphertext3 cloud_data w4)))"

section \<open>What a run computes\<close>

subsection \<open>Encrypting a list of messages\<close>

text \<open>
  The ciphertexts of a list of messages under one key, the generator state going from
  each call of \<open>bootsSymEncrypt\<close> to the next, and the generator state after the last.
\<close>

fun encryptions :: "('p, 'k, 'c, 'g) tfhe \<Rightarrow> 'k \<Rightarrow> int32_t list \<Rightarrow> 'g \<Rightarrow> 'c list" where
  "encryptions L key [] g = []"
| "encryptions L key (m # ms) g =
     fst (bootsSymEncrypt L m key g) # encryptions L key ms (snd (bootsSymEncrypt L m key g))"

fun generator_after :: "('p, 'k, 'c, 'g) tfhe \<Rightarrow> 'k \<Rightarrow> int32_t list \<Rightarrow> 'g \<Rightarrow> 'g" where
  "generator_after L key [] g = g"
| "generator_after L key (m # ms) g = generator_after L key ms (snd (bootsSymEncrypt L m key g))"

text \<open>The 32 messages of one encryption loop, cell 0 first.\<close>

definition messages :: "int32_t \<Rightarrow> int32_t list" where
  "messages plaintext = map (message_bit plaintext) [0..<32]"

text \<open>
  The bit vector of a 32-bit value as the specification's BitEncoder describes it:
  32 bits, bit \<open>i\<close> of the two's-complement representation at index \<open>i\<close>.
\<close>

definition toBits :: "int32_t \<Rightarrow> int32_t list" where
  "toBits v = map (\<lambda>i. if bit v i then 1 else 0) [0..<32]"

subsection \<open>The values of one session\<close>

text \<open>
  The values that \<^verbatim>\<open>main\<close> holds in \<^verbatim>\<open>params\<close>, \<^verbatim>\<open>key\<close>, \<^verbatim>\<open>ciphertext1\<close>,
  \<^verbatim>\<open>ciphertext2\<close> and \<^verbatim>\<open>ciphertext3\<close>, and the generator state between the steps, for a
  library \<open>L\<close> and surroundings \<open>E\<close>.
\<close>

definition session_params :: "('p, 'k, 'c, 'g) tfhe \<Rightarrow> 'p" where
  "session_params L = new_default_gate_bootstrapping_parameters L minimum_lambda"

definition seeded_generator :: "('p, 'k, 'c, 'g) tfhe \<Rightarrow> 'g env \<Rightarrow> 'g" where
  "seeded_generator L E = tfhe_random_generator_setSeed L seed 3 (generator0 E)"

definition generated_key :: "('p, 'k, 'c, 'g) tfhe \<Rightarrow> 'g env \<Rightarrow> 'k" where
  "generated_key L E =
     fst (new_random_gate_bootstrapping_secret_keyset L (session_params L) (seeded_generator L E))"

definition generator_keyed :: "('p, 'k, 'c, 'g) tfhe \<Rightarrow> 'g env \<Rightarrow> 'g" where
  "generator_keyed L E =
     snd (new_random_gate_bootstrapping_secret_keyset L (session_params L) (seeded_generator L E))"

definition ciphertexts1 :: "('p, 'k, 'c, 'g) tfhe \<Rightarrow> 'g env \<Rightarrow> 'c list" where
  "ciphertexts1 L E = encryptions L (generated_key L E) (messages plaintext1) (generator_keyed L E)"

definition generator1 :: "('p, 'k, 'c, 'g) tfhe \<Rightarrow> 'g env \<Rightarrow> 'g" where
  "generator1 L E = generator_after L (generated_key L E) (messages plaintext1) (generator_keyed L E)"

definition ciphertexts2 :: "('p, 'k, 'c, 'g) tfhe \<Rightarrow> 'g env \<Rightarrow> 'c list" where
  "ciphertexts2 L E = encryptions L (generated_key L E) (messages plaintext2) (generator1 L E)"

definition generator2 :: "('p, 'k, 'c, 'g) tfhe \<Rightarrow> 'g env \<Rightarrow> 'g" where
  "generator2 L E = generator_after L (generated_key L E) (messages plaintext2) (generator1 L E)"

definition ciphertexts3 :: "('p, 'k, 'c, 'g) tfhe \<Rightarrow> 'g env \<Rightarrow> 'c list" where
  "ciphertexts3 L E = encryptions L (generated_key L E) (messages plaintext3) (generator2 L E)"

definition generator3 :: "('p, 'k, 'c, 'g) tfhe \<Rightarrow> 'g env \<Rightarrow> 'g" where
  "generator3 L E = generator_after L (generated_key L E) (messages plaintext3) (generator2 L E)"

text \<open>The key set that line 41 binds to \<^verbatim>\<open>bk\<close>, when the key file opens and the library accepts it.\<close>

definition loaded_key :: "('p, 'k, 'c, 'g) tfhe \<Rightarrow> 'g env \<Rightarrow> 'k option" where
  "loaded_key L E =
     (case files0 E ''secret.key'' of
        None \<Rightarrow> None
      | Some bs \<Rightarrow> new_tfheGateBootstrappingSecretKeySet_fromFile L bs)"

subsection \<open>The calls of one session\<close>

definition encrypt_calls :: "int32_t \<Rightarrow> 'k \<Rightarrow> ('p, 'k, 'c) call list" where
  "encrypt_calls plaintext key =
     map (\<lambda>j. Call_bootsSymEncrypt j (message_bit plaintext j) key) [0..<32]"

definition calls_until_greeting :: "('p, 'k, 'c, 'g) tfhe \<Rightarrow> 'g env \<Rightarrow> ('p, 'k, 'c) call list" where
  "calls_until_greeting L E =
     [Call_new_default_gate_bootstrapping_parameters minimum_lambda,
      Call_tfhe_random_generator_setSeed seed 3,
      Call_new_random_gate_bootstrapping_secret_keyset (session_params L),
      Call_new_gate_bootstrapping_ciphertext_array 32 (session_params L)]
     @ encrypt_calls plaintext1 (generated_key L E)
     @ [Call_new_gate_bootstrapping_ciphertext_array 32 (session_params L)]
     @ encrypt_calls plaintext2 (generated_key L E)
     @ [Call_new_gate_bootstrapping_ciphertext_array 32 (session_params L)]
     @ encrypt_calls plaintext3 (generated_key L E)
     @ [Call_printf greeting]"

definition after_greeting :: "('p, 'k, 'c, 'g) tfhe \<Rightarrow> 'g env \<Rightarrow> ('p, 'k, 'c, 'g) world" where
  "after_greeting L E =
     \<lparr>generator = generator3 L E, files = files0 E, creatable = may_create E,
      writes_ok = write_ok E, stdout = greeting, calls = calls_until_greeting L E\<rparr>"

definition calls_key_file :: "('p, 'k, 'c) call list" where
  "calls_key_file =
     [Call_fopen ''secret.key'' ''rb'',
      Call_new_tfheGateBootstrappingSecretKeySet_fromFile (Some ''secret.key''),
      Call_fclose (Some ''secret.key'')]"

definition export_calls :: "string \<Rightarrow> 'p \<Rightarrow> 'c list \<Rightarrow> ('p, 'k, 'c) call list" where
  "export_calls stream params ciphertext =
     map (\<lambda>c. Call_export_gate_bootstrapping_ciphertext_toFile (Some stream) c params) ciphertext"

definition calls_cleanup :: "('p, 'k, 'c, 'g) tfhe \<Rightarrow> 'g env \<Rightarrow> ('p, 'k, 'c) call list" where
  "calls_cleanup L E =
     [Call_fclose (Some ''cloud.data''),
      Call_delete_gate_bootstrapping_ciphertext_array 32 (ciphertexts2 L E),
      Call_delete_gate_bootstrapping_ciphertext_array 32 (ciphertexts1 L E),
      Call_delete_gate_bootstrapping_ciphertext_array 32 (ciphertexts3 L E),
      Call_delete_gate_bootstrapping_secret_keyset (generated_key L E),
      Call_delete_gate_bootstrapping_parameters (session_params L)]"

subsection \<open>The bytes of the transport file\<close>

definition record_bytes :: "('p, 'k, 'c, 'g) tfhe \<Rightarrow> 'p \<Rightarrow> 'c list \<Rightarrow> byte list" where
  "record_bytes L params ciphertext =
     concat (map (\<lambda>c. export_gate_bootstrapping_ciphertext_toFile L c params) ciphertext)"

definition transport_bytes :: "('p, 'k, 'c, 'g) tfhe \<Rightarrow> 'g env \<Rightarrow> byte list" where
  "transport_bytes L E =
     concat (map (\<lambda>c. export_gate_bootstrapping_ciphertext_toFile L c (session_params L))
        (ciphertexts1 L E @ ciphertexts2 L E @ ciphertexts3 L E))"

subsection \<open>Reading a list of calls\<close>

fun key_of_call :: "('p, 'k, 'c) call \<Rightarrow> 'k list" where
  "key_of_call (Call_bootsSymEncrypt i m k) = [k]"
| "key_of_call _ = []"

fun message_of_call :: "('p, 'k, 'c) call \<Rightarrow> int32_t list" where
  "message_of_call (Call_bootsSymEncrypt i m k) = [m]"
| "message_of_call _ = []"

fun fopen_of_call :: "('p, 'k, 'c) call \<Rightarrow> (string \<times> string) list" where
  "fopen_of_call (Call_fopen path mode) = [(path, mode)]"
| "fopen_of_call _ = []"

text \<open>The calls that read or write the random generator.\<close>

fun uses_generator :: "('p, 'k, 'c) call \<Rightarrow> bool" where
  "uses_generator (Call_tfhe_random_generator_setSeed values n) = True"
| "uses_generator (Call_new_random_gate_bootstrapping_secret_keyset params) = True"
| "uses_generator (Call_bootsSymEncrypt i m k) = True"
| "uses_generator _ = False"

definition encrypt_keys :: "('p, 'k, 'c) call list \<Rightarrow> 'k list" where
  "encrypt_keys cs = concat (map key_of_call cs)"

definition encrypt_messages :: "('p, 'k, 'c) call list \<Rightarrow> int32_t list" where
  "encrypt_messages cs = concat (map message_of_call cs)"

definition fopen_calls :: "('p, 'k, 'c) call list \<Rightarrow> (string \<times> string) list" where
  "fopen_calls cs = concat (map fopen_of_call cs)"

definition generator_calls :: "('p, 'k, 'c) call list \<Rightarrow> ('p, 'k, 'c) call list" where
  "generator_calls cs = filter uses_generator cs"

subsection \<open>A small library and surroundings to run main on\<close>

text \<open>
  An instance of the library interface for concrete runs (it is not TFHE): parameters
  are the security level, the generator is a counter, seeding sets it to the sum of the
  seed values, a key is the counter at generation plus one, a ciphertext records the
  message, the key and the counter, a key file holds the key in its first byte, and a
  ciphertext is exported as three bytes.
\<close>

definition toy :: "(int32_t, nat, int32_t \<times> nat \<times> nat, nat) tfhe" where
  "toy =
     \<lparr>new_default_gate_bootstrapping_parameters = (\<lambda>lambda. lambda),
      tfhe_random_generator_setSeed = (\<lambda>values n g. unat (sum_list (take n values))),
      new_random_gate_bootstrapping_secret_keyset = (\<lambda>params g. (g + 1, g + 2)),
      new_LweSample = (\<lambda>params. (0, 0, 0)),
      bootsSymEncrypt = (\<lambda>message key g. ((message, key, g), g + 1)),
      new_tfheGateBootstrappingSecretKeySet_fromFile =
        (\<lambda>bs. case bs of [] \<Rightarrow> None | b # rest \<Rightarrow> Some (unat b)),
      export_gate_bootstrapping_ciphertext_toFile =
        (\<lambda>c params. [ucast (fst c), of_nat (fst (snd c)), of_nat (snd (snd c))])\<rparr>"

definition toy_env :: "nat env" where
  "toy_env =
     \<lparr>generator0 = 0, files0 = [''secret.key'' \<mapsto> [2]], may_create = (\<lambda>path. True),
      write_ok = True\<rparr>"

definition toy_env_no_key :: "nat env" where
  "toy_env_no_key =
     \<lparr>generator0 = 0, files0 = Map.empty, may_create = (\<lambda>path. True), write_ok = True\<rparr>"

section \<open>The loops and main in closed form\<close>

lemma length_encryptions [simp]: "length (encryptions L key ms g) = length ms"
  by (induction ms arbitrary: g) auto

lemma encrypt_loop_closed:
  "i \<le> 32 \<Longrightarrow> length ct = 32 \<Longrightarrow>
   encrypt_loop L pt key i ct w =
     (take i ct @ encryptions L key (map (message_bit pt) [i..<32]) (generator w),
      w\<lparr>generator := generator_after L key (map (message_bit pt) [i..<32]) (generator w),
        calls := calls w @ map (\<lambda>j. Call_bootsSymEncrypt j (message_bit pt j) key) [i..<32]\<rparr>)"
proof (induction L pt key i ct w rule: encrypt_loop.induct)
  case (1 L pt key i ct w)
  show ?case
  proof (cases "i < 32")
    case False
    with "1.prems" have "i = 32" by simp
    then show ?thesis using "1.prems" by (simp add: encrypt_loop.simps)
  next
    case True
    obtain c g where cg: "bootsSymEncrypt L (message_bit pt i) key (generator w) = (c, g)"
      by (cases "bootsSymEncrypt L (message_bit pt i) key (generator w)")
    have up: "[i..<32] = i # [Suc i..<32]" using True by (simp add: upt_conv_Cons)
    have tk: "take (Suc i) (ct[i := c]) = take i ct @ [c]"
      using True "1.prems" by (simp add: take_Suc_conv_app_nth)
    have IH: "encrypt_loop L pt key (Suc i) (ct[i := c])
                ((called (Call_bootsSymEncrypt i (message_bit pt i) key) w)\<lparr>generator := g\<rparr>) = 
       (take (Suc i) (ct[i := c]) @ encryptions L key (map (message_bit pt) [Suc i..<32]) g,
        ((called (Call_bootsSymEncrypt i (message_bit pt i) key) w)\<lparr>generator := g\<rparr>)
          \<lparr>generator := generator_after L key (map (message_bit pt) [Suc i..<32]) g,
           calls := (calls w @ [Call_bootsSymEncrypt i (message_bit pt i) key]) @
                  map (\<lambda>j. Call_bootsSymEncrypt j (message_bit pt j) key) [Suc i..<32]\<rparr>)"
      using "1.IH"[OF True cg[symmetric] refl refl] True "1.prems"
      by (simp add: called_def)
    show ?thesis
      apply (subst encrypt_loop.simps)
      apply (simp only: True if_True cg Let_def prod.case IH tk)
      apply (simp add: up cg called_def)
      done
  qed
qed

lemma fwrite_fwrite: "fwrite s b2 (fwrite s b1 w) = fwrite s (b1 @ b2) w"
  by (simp add: fwrite_def split: option.splits)

lemma fwrite_calls_update:
  "fwrite s bs (w\<lparr>calls := cs\<rparr>) = (fwrite s bs w)\<lparr>calls := cs\<rparr>"
  by (simp add: fwrite_def split: option.splits)

lemma calls_fwrite [simp]: "calls (fwrite s bs w) = calls w"
  by (simp add: fwrite_def split: option.splits)

lemma fwrite_Nil [simp]: "fwrite s [] w = w"
  by (auto simp: fwrite_def fun_upd_idem split: option.splits)

lemma export_loop_closed:
  "i \<le> 32 \<Longrightarrow> length ct = 32 \<Longrightarrow>
   export_loop L s p i ct w =
     (fwrite s (concat (map (\<lambda>c. export_gate_bootstrapping_ciphertext_toFile L c p) (drop i ct))) w)
       \<lparr>calls := calls w @
          map (\<lambda>c. Call_export_gate_bootstrapping_ciphertext_toFile (Some s) c p) (drop i ct)\<rparr>"
proof (induction L s p i ct w rule: export_loop.induct)
  case (1 L s p i ct w)
  show ?case
  proof (cases "i < 32")
    case False
    with "1.prems" have "i = 32" by simp
    then show ?thesis using "1.prems" by (simp add: export_loop.simps)
  next
    case True
    have dr: "drop i ct = ct ! i # drop (Suc i) ct"
      using True "1.prems" by (simp add: Cons_nth_drop_Suc)
    have S: "Suc i \<le> 32" using True by simp
    show ?thesis
      apply (subst export_loop.simps)
      apply (simp only: True if_True Let_def "1.IH"[OF True refl S "1.prems"(2)])
      apply (simp add: dr called_def fwrite_calls_update fwrite_fwrite)
      done
  qed
qed

lemma export_loop_0:
  "length ct = 32 \<Longrightarrow>
   export_loop L s p 0 ct w =
     (fwrite s (concat (map (\<lambda>c. export_gate_bootstrapping_ciphertext_toFile L c p) ct)) w)
       \<lparr>calls := calls w @
          map (\<lambda>c. Call_export_gate_bootstrapping_ciphertext_toFile (Some s) c p) ct\<rparr>"
  by (simp add: export_loop_closed)

lemma encrypt_loop_0:
  "length ct = 32 \<Longrightarrow>
   encrypt_loop L pt key 0 ct w =
     (encryptions L key (map (message_bit pt) [0..<32]) (generator w),
      w\<lparr>generator := generator_after L key (map (message_bit pt) [0..<32]) (generator w),
        calls := calls w @ map (\<lambda>j. Call_bootsSymEncrypt j (message_bit pt j) key) [0..<32]\<rparr>)"
  by (simp add: encrypt_loop_closed)

lemma main_encrypt_closed:
  "main_encrypt L (start E) =
     ((session_params L, generated_key L E, ciphertexts1 L E, ciphertexts2 L E, ciphertexts3 L E),
      after_greeting L E)"
  by (simp add: main_encrypt_def new_gate_bootstrapping_ciphertext_array_def encrypt_loop_0
      Let_def split_beta printf_def called_def start_def after_greeting_def
      calls_until_greeting_def encrypt_calls_def ciphertexts1_def ciphertexts2_def
      ciphertexts3_def generator1_def generator2_def generator3_def generated_key_def
      generator_keyed_def seeded_generator_def session_params_def messages_def)

lemma length_ciphertexts [simp]:
  "length (ciphertexts1 L E) = 32" "length (ciphertexts2 L E) = 32" "length (ciphertexts3 L E) = 32"
  by (simp_all add: ciphertexts1_def ciphertexts2_def ciphertexts3_def messages_def)

lemma after_greeting_sel [simp]:
  "generator (after_greeting L E) = generator3 L E"
  "files (after_greeting L E) = files0 E"
  "creatable (after_greeting L E) = may_create E"
  "writes_ok (after_greeting L E) = write_ok E"
  "stdout (after_greeting L E) = greeting"
  "calls (after_greeting L E) = calls_until_greeting L E"
  by (simp_all add: after_greeting_def)

lemma fopen_rb:
  "fopen path ''rb'' w =
     (if files w path = None then None else Some path, called (Call_fopen path ''rb'') w)"
  by (simp add: fopen_def Let_def called_def)

lemma fopen_wb:
  "fopen path ''wb'' w =
     (if creatable w path
      then (Some path, (called (Call_fopen path ''wb'') w)\<lparr>files := (files w)(path \<mapsto> [])\<rparr>)
      else (None, called (Call_fopen path ''wb'') w))"
  by (simp add: fopen_def Let_def called_def)

lemma main_no_key_file:
  "files0 E ''secret.key'' = None \<Longrightarrow>
   main L E =
     (Undefined_behaviour,
      (after_greeting L E)\<lparr>calls := calls_until_greeting L E @
         [Call_fopen ''secret.key'' ''rb'',
          Call_new_tfheGateBootstrappingSecretKeySet_fromFile None]\<rparr>)"
  by (simp add: main_def main_encrypt_closed fopen_rb called_def)

lemma main_bad_key_file:
  "files0 E ''secret.key'' = Some bs \<Longrightarrow>
   new_tfheGateBootstrappingSecretKeySet_fromFile L bs = None \<Longrightarrow>
   main L E =
     (Library_stopped,
      (after_greeting L E)\<lparr>calls := calls_until_greeting L E @
         [Call_fopen ''secret.key'' ''rb'',
          Call_new_tfheGateBootstrappingSecretKeySet_fromFile (Some ''secret.key'')]\<rparr>)"
  by (simp add: main_def main_encrypt_closed fopen_rb called_def stream_bytes_def)

lemma main_no_transport_file:
  "files0 E ''secret.key'' = Some bs \<Longrightarrow>
   new_tfheGateBootstrappingSecretKeySet_fromFile L bs = Some bk \<Longrightarrow>
   \<not> may_create E ''cloud.data'' \<Longrightarrow>
   main L E =
     (Undefined_behaviour,
      (after_greeting L E)\<lparr>calls := calls_until_greeting L E @ calls_key_file @
         [Call_fopen ''cloud.data'' ''wb'',
          Call_export_gate_bootstrapping_ciphertext_toFile None (ciphertexts1 L E ! 0)
            (session_params L)]\<rparr>)"
  by (simp add: main_def main_encrypt_closed fopen_rb fopen_wb fclose_def called_def
      stream_bytes_def main_export_def calls_key_file_def)

lemma export_loop_0_records:
  "length ct = 32 \<Longrightarrow>
   export_loop L s p 0 ct w =
     (fwrite s (record_bytes L p ct) w)\<lparr>calls := calls w @ export_calls s p ct\<rparr>"
  by (simp add: export_loop_0 record_bytes_def export_calls_def)

lemma main_export_closed:
  assumes "length c1 = 32" "length c2 = 32" "length c3 = 32"
  shows "main_export L p k c1 c2 c3 (Some s) w =
     (Returned 0,
      (fwrite s (record_bytes L p c1 @ record_bytes L p c2 @ record_bytes L p c3) w)
        \<lparr>calls := calls w @ export_calls s p c1 @ export_calls s p c2 @ export_calls s p c3 @
           [Call_fclose (Some s),
            Call_delete_gate_bootstrapping_ciphertext_array 32 c2,
            Call_delete_gate_bootstrapping_ciphertext_array 32 c1,
            Call_delete_gate_bootstrapping_ciphertext_array 32 c3,
            Call_delete_gate_bootstrapping_secret_keyset k,
            Call_delete_gate_bootstrapping_parameters p]\<rparr>)"
  using assms
  by (simp add: main_export_def export_loop_0_records fwrite_calls_update fwrite_fwrite fclose_def
      called_def Let_def)

lemma transport_bytes_records:
  "transport_bytes L E =
     record_bytes L (session_params L) (ciphertexts1 L E) @
     record_bytes L (session_params L) (ciphertexts2 L E) @
     record_bytes L (session_params L) (ciphertexts3 L E)"
  by (simp add: transport_bytes_def record_bytes_def)

lemma main_returns:
  assumes key_file: "files0 E ''secret.key'' = Some bs"
    and loads: "new_tfheGateBootstrappingSecretKeySet_fromFile L bs = Some bk"
    and creates: "may_create E ''cloud.data''"
  shows "main L E =
     (Returned 0,
      (after_greeting L E)
        \<lparr>files := (files0 E)(''cloud.data'' \<mapsto> (if write_ok E then transport_bytes L E else [])),
         calls := calls_until_greeting L E @ calls_key_file @ [Call_fopen ''cloud.data'' ''wb'']
            @ export_calls ''cloud.data'' (session_params L) (ciphertexts1 L E)
            @ export_calls ''cloud.data'' (session_params L) (ciphertexts2 L E)
            @ export_calls ''cloud.data'' (session_params L) (ciphertexts3 L E)
            @ calls_cleanup L E\<rparr>)"
proof (cases "write_ok E")
  case True
  then show ?thesis
    using key_file loads creates
    by (simp add: main_def main_encrypt_closed fopen_rb fopen_wb fclose_def called_def
        stream_bytes_def main_export_closed calls_key_file_def fwrite_def
        transport_bytes_records calls_cleanup_def)
next
  case False
  then show ?thesis
    using key_file loads creates
    by (simp add: main_def main_encrypt_closed fopen_rb fopen_wb fclose_def called_def
        stream_bytes_def main_export_closed calls_key_file_def fwrite_def
        transport_bytes_records calls_cleanup_def)
qed

section \<open>The bit encoding\<close>

lemma message_bit_bit: "i < 32 \<Longrightarrow> message_bit v i = (if bit v i then 1 else 0)"
proof -
  assume i: "i < 32"
  have "bit (signed_drop_bit i v) 0 = bit v i"
    using i by (simp add: bit_signed_drop_bit_iff)
  moreover have "signed_drop_bit i v AND 1 = (if bit (signed_drop_bit i v) 0 then 1 else 0)"
    by (simp add: and_one_eq mod_2_eq_odd bit_0)
  ultimately show ?thesis
    by (simp add: message_bit_def)
qed

lemma messages_toBits: "messages v = toBits v"
  by (simp add: messages_def toBits_def message_bit_bit)

lemma length_messages [simp]: "length (messages v) = 32"
  by (simp add: messages_def)

lemma encrypt_loop_calls:
  "i \<le> 32 \<Longrightarrow>
   calls (snd (encrypt_loop L pt key i ct w)) =
     calls w @ map (\<lambda>j. Call_bootsSymEncrypt j (message_bit pt j) key) [i..<32]"
proof (induction L pt key i ct w rule: encrypt_loop.induct)
  case (1 L pt key i ct w)
  show ?case
  proof (cases "i < 32")
    case False
    with "1.prems" have "i = 32" by simp
    then show ?thesis by (simp add: encrypt_loop.simps)
  next
    case True
    obtain c g where cg: "bootsSymEncrypt L (message_bit pt i) key (generator w) = (c, g)"
      by (cases "bootsSymEncrypt L (message_bit pt i) key (generator w)")
    have up: "[i..<32] = i # [Suc i..<32]" using True by (simp add: upt_conv_Cons)
    have S: "Suc i \<le> 32" using True by simp
    show ?thesis
      apply (subst encrypt_loop.simps)
      apply (simp only: True if_True cg Let_def prod.case "1.IH"[OF True refl cg[symmetric] refl S])
      apply (simp add: up called_def)
      done
  qed
qed

lemma concat_map_single: "concat (map (\<lambda>j. [f j]) xs) = map f xs"
  by (induction xs) auto

lemma encrypt_messages_simps [simp]:
  "encrypt_messages [] = []"
  "encrypt_messages (c # cs) = message_of_call c @ encrypt_messages cs"
  "encrypt_messages (as @ bs) = encrypt_messages as @ encrypt_messages bs"
  by (simp_all add: encrypt_messages_def)

lemma encrypt_messages_encrypt_calls [simp]:
  "encrypt_messages (encrypt_calls v k) = messages v"
  by (simp add: encrypt_messages_def encrypt_calls_def messages_def comp_def concat_map_single)

section \<open>Reading the calls of a run\<close>

lemma encrypt_keys_simps [simp]:
  "encrypt_keys [] = []"
  "encrypt_keys (c # cs) = key_of_call c @ encrypt_keys cs"
  "encrypt_keys (as @ bs) = encrypt_keys as @ encrypt_keys bs"
  by (simp_all add: encrypt_keys_def)

lemma fopen_calls_simps [simp]:
  "fopen_calls [] = []"
  "fopen_calls (c # cs) = fopen_of_call c @ fopen_calls cs"
  "fopen_calls (as @ bs) = fopen_calls as @ fopen_calls bs"
  by (simp_all add: fopen_calls_def)

lemma generator_calls_simps [simp]:
  "generator_calls [] = []"
  "generator_calls (c # cs) = (if uses_generator c then c # generator_calls cs else generator_calls cs)"
  "generator_calls (as @ bs) = generator_calls as @ generator_calls bs"
  by (simp_all add: generator_calls_def)

lemma encrypt_keys_encrypt_calls [simp]:
  "encrypt_keys (encrypt_calls v k) = replicate 32 k"
  by (simp add: encrypt_keys_def encrypt_calls_def comp_def concat_map_single map_replicate_const)

lemma fopen_calls_encrypt_calls [simp]: "fopen_calls (encrypt_calls v k) = []"
  by (simp add: fopen_calls_def encrypt_calls_def comp_def)

lemma generator_calls_encrypt_calls [simp]:
  "generator_calls (encrypt_calls v k) = encrypt_calls v k"
  by (simp add: generator_calls_def encrypt_calls_def filter_map comp_def)

lemma encrypt_keys_export_calls [simp]: "encrypt_keys (export_calls s p ct) = []"
  by (simp add: encrypt_keys_def export_calls_def comp_def)

lemma encrypt_messages_export_calls [simp]: "encrypt_messages (export_calls s p ct) = []"
  by (simp add: encrypt_messages_def export_calls_def comp_def)

lemma fopen_calls_export_calls [simp]: "fopen_calls (export_calls s p ct) = []"
  by (simp add: fopen_calls_def export_calls_def comp_def)

lemma generator_calls_export_calls [simp]: "generator_calls (export_calls s p ct) = []"
  by (simp add: generator_calls_def export_calls_def filter_map comp_def)

lemma until_greeting_read:
  "encrypt_keys (calls_until_greeting L E) = replicate 96 (generated_key L E)"
  "encrypt_messages (calls_until_greeting L E) =
     messages plaintext1 @ messages plaintext2 @ messages plaintext3"
  "fopen_calls (calls_until_greeting L E) = []"
  "generator_calls (calls_until_greeting L E) =
     Call_tfhe_random_generator_setSeed seed 3 #
     Call_new_random_gate_bootstrapping_secret_keyset (session_params L) #
     encrypt_calls plaintext1 (generated_key L E) @
     encrypt_calls plaintext2 (generated_key L E) @
     encrypt_calls plaintext3 (generated_key L E)"
  by (simp_all add: calls_until_greeting_def replicate_add [symmetric])

lemma key_file_read:
  "encrypt_keys calls_key_file = []"
  "encrypt_messages calls_key_file = []"
  "fopen_calls calls_key_file = [(''secret.key'', ''rb'')]"
  "generator_calls calls_key_file = []"
  by (simp_all add: calls_key_file_def)

lemma cleanup_read:
  "encrypt_keys (calls_cleanup L E) = []"
  "encrypt_messages (calls_cleanup L E) = []"
  "fopen_calls (calls_cleanup L E) = []"
  "generator_calls (calls_cleanup L E) = []"
  by (simp_all add: calls_cleanup_def)

lemma main_cases:
  obtains "files0 E ''secret.key'' = None"
  | bs where "files0 E ''secret.key'' = Some bs"
      "new_tfheGateBootstrappingSecretKeySet_fromFile L bs = None"
  | bs bk where "files0 E ''secret.key'' = Some bs"
      "new_tfheGateBootstrappingSecretKeySet_fromFile L bs = Some bk"
      "\<not> may_create E ''cloud.data''"
  | bs bk where "files0 E ''secret.key'' = Some bs"
      "new_tfheGateBootstrappingSecretKeySet_fromFile L bs = Some bk"
      "may_create E ''cloud.data''"
  by (cases "files0 E ''secret.key''"; cases "new_tfheGateBootstrappingSecretKeySet_fromFile L (the (files0 E ''secret.key''))"; cases "may_create E ''cloud.data''") auto

lemmas main_closed = main_no_key_file main_bad_key_file main_no_transport_file main_returns

lemmas calls_read = until_greeting_read key_file_read cleanup_read

lemma main_encrypt_keys:
  "encrypt_keys (calls (snd (main L E))) = replicate 96 (generated_key L E)"
  by (rule main_cases [where E = E and L = L]) (simp_all add: main_closed calls_read)

lemma main_encrypt_messages:
  "encrypt_messages (calls (snd (main L E))) =
     messages plaintext1 @ messages plaintext2 @ messages plaintext3"
  by (rule main_cases [where E = E and L = L]) (simp_all add: main_closed calls_read)

lemma main_generator_calls:
  "generator_calls (calls (snd (main L E))) =
     Call_tfhe_random_generator_setSeed seed 3 #
     Call_new_random_gate_bootstrapping_secret_keyset (session_params L) #
     encrypt_calls plaintext1 (generated_key L E) @
     encrypt_calls plaintext2 (generated_key L E) @
     encrypt_calls plaintext3 (generated_key L E)"
  by (rule main_cases [where E = E and L = L]) (simp_all add: main_closed calls_read)

lemma main_stdout: "stdout (snd (main L E)) = greeting"
  by (rule main_cases [where E = E and L = L]) (simp_all add: main_closed)

lemma toy_values:
  "session_params toy = 110"
  "seeded_generator toy E = 2563"
  "generated_key toy E = 2564"
  "generator_keyed toy E = 2565"
  by (simp_all add: session_params_def seeded_generator_def generated_key_def generator_keyed_def
      toy_def minimum_lambda_def seed_def)

lemma toy_env_values:
  "files0 toy_env ''secret.key'' = Some [2]"
  "new_tfheGateBootstrappingSecretKeySet_fromFile toy [2] = Some 2"
  "may_create toy_env ''cloud.data''"
  "write_ok toy_env"
  "generator0 toy_env = 0"
  by (simp_all add: toy_env_def toy_def)

section \<open>Files\<close>

lemma messages_zero: "messages 0 = replicate 32 0"
proof -
  have "message_bit 0 = (\<lambda>i. 0)"
    by (simp add: message_bit_def fun_eq_iff)
  then show ?thesis
    by (simp add: messages_def map_replicate_const)
qed

lemma length_concat_fixed:
  "\<forall>x\<in>set xs. length (f x) = n \<Longrightarrow> length (concat (map f xs)) = length xs * n"
  by (induction xs) auto

lemma concat_block:
  "\<forall>x\<in>set xs. length (f x) = n \<Longrightarrow> j < length xs \<Longrightarrow>
   take n (drop (j * n) (concat (map f xs))) = f (xs ! j)"
proof (induction xs arbitrary: j)
  case Nil
  then show ?case by simp
next
  case (Cons x xs)
  show ?case
  proof (cases j)
    case 0
    with Cons.prems show ?thesis by simp
  next
    case (Suc k)
    have "drop (Suc k * n) (f x @ concat (map f xs)) = drop (k * n) (concat (map f xs))"
      using Cons.prems(1) by simp
    with Cons Suc show ?thesis by simp
  qed
qed

lemma main_transport_file:
  assumes "files0 E ''secret.key'' = Some bs"
    and "new_tfheGateBootstrappingSecretKeySet_fromFile L bs = Some bk"
    and "may_create E ''cloud.data''"
    and "write_ok E"
  shows "files (snd (main L E)) ''cloud.data'' = Some (transport_bytes L E)"
  using assms by (simp add: main_returns)

lemma main_files_frame:
  "path \<noteq> ''cloud.data'' \<Longrightarrow> files (snd (main L E)) path = files0 E path"
  by (rule main_cases [where E = E and L = L]) (simp_all add: main_closed)

lemma main_transport_content:
  "files (snd (main L E)) ''cloud.data'' = files0 E ''cloud.data'' \<or>
   files (snd (main L E)) ''cloud.data'' = Some [] \<or>
   files (snd (main L E)) ''cloud.data'' = Some (transport_bytes L E)"
  by (rule main_cases [where E = E and L = L]) (simp_all add: main_closed)

lemma main_fopen_calls:
  "fopen_calls (calls (snd (main L E))) = [(''secret.key'', ''rb'')] \<or>
   fopen_calls (calls (snd (main L E))) = [(''secret.key'', ''rb''), (''cloud.data'', ''wb'')]"
  by (rule main_cases [where E = E and L = L]) (simp_all add: main_closed calls_read)

lemma session_values_generator0:
  assumes "generator0 E' = generator0 E"
  shows "seeded_generator L E' = seeded_generator L E"
    and "generated_key L E' = generated_key L E"
    and "generator_keyed L E' = generator_keyed L E"
    and "ciphertexts1 L E' = ciphertexts1 L E"
    and "generator1 L E' = generator1 L E"
    and "ciphertexts2 L E' = ciphertexts2 L E"
    and "generator2 L E' = generator2 L E"
    and "ciphertexts3 L E' = ciphertexts3 L E"
    and "generator3 L E' = generator3 L E"
    and "calls_until_greeting L E' = calls_until_greeting L E"
    and "calls_cleanup L E' = calls_cleanup L E"
    and "transport_bytes L E' = transport_bytes L E"
  using assms
  by (simp_all add: seeded_generator_def generated_key_def generator_keyed_def ciphertexts1_def
      generator1_def ciphertexts2_def generator2_def ciphertexts3_def generator3_def
      calls_until_greeting_def calls_cleanup_def transport_bytes_def)

section \<open>Properties of main\<close>

subsection \<open>C1: the key of the encryptions\<close>

text \<open>
  C1, as the code has it. Every one of the 96 calls of \<open>bootsSymEncrypt\<close> is given the
  key set that \<open>new_random_gate_bootstrapping_secret_keyset\<close> returned for the session's
  parameter set after the seeding, whatever the surroundings; the messages are those of
  \<^verbatim>\<open>plaintext1\<close>, \<^verbatim>\<open>plaintext2\<close> and \<^verbatim>\<open>plaintext3\<close>, in this order. The key set read
  from \<^verbatim>\<open>secret.key\<close> is given to no encryption.
\<close>

theorem encrypts_under_generated_key:
  "encrypt_keys (calls (snd (main L E))) = replicate 96 (generated_key L E) \<and>
   generated_key L E =
     fst (new_random_gate_bootstrapping_secret_keyset L (session_params L) (seeded_generator L E)) \<and>
   encrypt_messages (calls (snd (main L E))) =
     messages plaintext1 @ messages plaintext2 @ messages plaintext3"
  by (simp add: main_encrypt_keys main_encrypt_messages generated_key_def)

text \<open>
  C1, as stated (the encryptions use the key loaded from \<^verbatim>\<open>secret.key\<close>), fails: with the
  small library and a key file that holds key 2, the loaded key is 2 and all 96
  encryption calls are given the generated key 2564.
\<close>

theorem loaded_key_counterexample:
  "loaded_key toy toy_env = Some 2 \<and>
   encrypt_keys (calls (snd (main toy toy_env))) = replicate 96 2564 \<and>
   encrypt_keys (calls (snd (main toy toy_env))) \<noteq> replicate 96 2"
  by (simp add: main_encrypt_keys toy_values loaded_key_def toy_env_values)

subsection \<open>C2: the transport file\<close>

text \<open>
  C2. When the key file opens and is accepted, \<^verbatim>\<open>cloud.data\<close> can be created and the
  writes succeed, the file \<^verbatim>\<open>cloud.data\<close> holds, from its first byte and with nothing
  before, between or after, the exports under the session's parameter set of 96
  ciphertexts: the 32 of \<^verbatim>\<open>plaintext1\<close>, then the 32 of \<^verbatim>\<open>plaintext2\<close>, then the 32 of
  \<^verbatim>\<open>plaintext3\<close>, each group being the encryptions of the bits of its value from bit 0
  to bit 31. When every export has the same size \<open>n\<close>, the file has \<open>96 * n\<close> bytes and
  its block \<open>j\<close> of \<open>n\<close> bytes is the export of ciphertext \<open>j\<close>.
\<close>

theorem transport_file_layout:
  assumes "files0 E ''secret.key'' = Some bs"
    and "new_tfheGateBootstrappingSecretKeySet_fromFile L bs = Some bk"
    and "may_create E ''cloud.data''"
    and "write_ok E"
  shows "files (snd (main L E)) ''cloud.data'' =
           Some (concat (map (\<lambda>c. export_gate_bootstrapping_ciphertext_toFile L c (session_params L))
                   (ciphertexts1 L E @ ciphertexts2 L E @ ciphertexts3 L E))) \<and>
         length (ciphertexts1 L E @ ciphertexts2 L E @ ciphertexts3 L E) = 96 \<and>
         ciphertexts1 L E =
           encryptions L (generated_key L E) (toBits plaintext1) (generator_keyed L E) \<and>
         ciphertexts2 L E =
           encryptions L (generated_key L E) (toBits plaintext2) (generator1 L E) \<and>
         ciphertexts3 L E =
           encryptions L (generated_key L E) (toBits plaintext3) (generator2 L E) \<and>
         ((\<forall>c. length (export_gate_bootstrapping_ciphertext_toFile L c (session_params L)) = n) \<longrightarrow>
            length (transport_bytes L E) = 96 * n \<and>
            (\<forall>j<96. take n (drop (j * n) (transport_bytes L E)) =
               export_gate_bootstrapping_ciphertext_toFile L
                 ((ciphertexts1 L E @ ciphertexts2 L E @ ciphertexts3 L E) ! j) (session_params L)))"
proof -
  let ?cs = "ciphertexts1 L E @ ciphertexts2 L E @ ciphertexts3 L E"
  let ?f = "\<lambda>c. export_gate_bootstrapping_ciphertext_toFile L c (session_params L)"
  have len: "length ?cs = 96" by simp
  have content: "files (snd (main L E)) ''cloud.data'' = Some (concat (map ?f ?cs))"
    using main_transport_file [OF assms] by (simp add: transport_bytes_def)
  have fixed: "length (transport_bytes L E) = 96 * n \<and>
      (\<forall>j<96. take n (drop (j * n) (transport_bytes L E)) = ?f (?cs ! j))"
    if "\<forall>c. length (?f c) = n"
  proof -
    from that have all: "\<forall>x\<in>set ?cs. length (?f x) = n" by blast
    have "length (concat (map ?f ?cs)) = length ?cs * n"
      by (rule length_concat_fixed [OF all])
    moreover have "take n (drop (j * n) (concat (map ?f ?cs))) = ?f (?cs ! j)" if "j < 96" for j
      using concat_block [OF all, of j] that len by simp
    ultimately show ?thesis
      unfolding transport_bytes_def using len by simp
  qed
  show ?thesis
    using content len fixed
    by (simp add: ciphertexts1_def ciphertexts2_def ciphertexts3_def messages_toBits)
qed

theorem transport_file_layout_witness:
  "files0 toy_env ''secret.key'' = Some [2] \<and>
   new_tfheGateBootstrappingSecretKeySet_fromFile toy [2] = Some 2 \<and>
   may_create toy_env ''cloud.data'' \<and> write_ok toy_env \<and>
   (\<forall>c. length (export_gate_bootstrapping_ciphertext_toFile toy c (session_params toy)) = 3) \<and>
   (64::nat) < 96 \<and>
   files (snd (main toy toy_env)) ''cloud.data'' = Some (transport_bytes toy toy_env) \<and>
   length (transport_bytes toy toy_env) = 96 * 3 \<and>
   take 3 (drop (64 * 3) (transport_bytes toy toy_env)) =
     export_gate_bootstrapping_ciphertext_toFile toy
       ((ciphertexts1 toy toy_env @ ciphertexts2 toy toy_env @ ciphertexts3 toy toy_env) ! 64)
       (session_params toy)"
proof -
  have h: "\<forall>c. length (export_gate_bootstrapping_ciphertext_toFile toy c (session_params toy)) = 3"
    by (simp add: toy_def)
  have j: "(64::nat) < 96"
    by simp
  show ?thesis
    using h j toy_env_values(1-4) transport_file_layout [OF toy_env_values(1-4), of 3]
    unfolding transport_bytes_def by blast
qed

subsection \<open>C3: the bit encoding\<close>

text \<open>
  C3. For every 32-bit value \<open>v\<close>, negative ones included, the messages that one
  encryption loop passes to \<open>bootsSymEncrypt\<close> are, cell 0 first, the 32 bits of the
  two's-complement representation of \<open>v\<close>: the message of cell \<open>i\<close>,
  \<^verbatim>\<open>(v>>i)&1\<close>, is bit \<open>i\<close> of \<open>v\<close>. The loop ends for every \<open>v\<close>, and the vector has
  length 32.
\<close>

theorem bit_encoding_total_lsb_first:
  "messages v = toBits v \<and> length (toBits v) = 32 \<and>
   encrypt_messages (calls (snd (encrypt_loop L v key 0 ciphertext w))) =
     encrypt_messages (calls w) @ toBits v"
  using encrypt_messages_encrypt_calls [of v key]
  by (simp add: encrypt_loop_calls encrypt_calls_def messages_toBits [symmetric])

subsection \<open>C5: seeding comes first\<close>

text \<open>
  C5. Of the calls that read or write the random generator, the first is the seeding
  with the fixed seed, the second is the key generation, and the others are the 96
  encryptions: the generator is seeded once, before the key is generated and before
  every encryption, and not again. When seeding overwrites the generator state, these
  calls, with the key they carry, are the same in every run.
\<close>

theorem seeding_before_key_and_encryptions:
  "generator_calls (calls (snd (main L E))) =
     Call_tfhe_random_generator_setSeed seed 3 #
     Call_new_random_gate_bootstrapping_secret_keyset (session_params L) #
     encrypt_calls plaintext1 (generated_key L E) @
     encrypt_calls plaintext2 (generated_key L E) @
     encrypt_calls plaintext3 (generated_key L E) \<and>
   ((\<forall>g g'. tfhe_random_generator_setSeed L seed 3 g = tfhe_random_generator_setSeed L seed 3 g')
      \<longrightarrow> generator_calls (calls (snd (main L E'))) = generator_calls (calls (snd (main L E))))"
proof -
  have "generated_key L E' = generated_key L E"
    if "\<forall>g g'. tfhe_random_generator_setSeed L seed 3 g = tfhe_random_generator_setSeed L seed 3 g'"
  proof -
    from that have "seeded_generator L E' = seeded_generator L E"
      unfolding seeded_generator_def by blast
    then show ?thesis by (simp add: generated_key_def)
  qed
  then show ?thesis
    by (simp add: main_generator_calls)
qed

theorem seeding_before_key_and_encryptions_witness:
  "(\<forall>g g'. tfhe_random_generator_setSeed toy seed 3 g = tfhe_random_generator_setSeed toy seed 3 g')
   \<and> generator_calls (calls (snd (main toy toy_env_no_key))) =
       generator_calls (calls (snd (main toy toy_env)))"
  using seeding_before_key_and_encryptions [of toy toy_env toy_env_no_key]
  by (simp add: toy_def)

subsection \<open>C6: the carry vector\<close>

text \<open>
  C6. In a run that writes the transport file, the messages of the last 32 encryption
  calls are all 0, and the third group of records in \<^verbatim>\<open>cloud.data\<close> is the export of
  the encryptions of 32 zero bits.
\<close>

theorem carry_vector_zero:
  assumes "files0 E ''secret.key'' = Some bs"
    and "new_tfheGateBootstrappingSecretKeySet_fromFile L bs = Some bk"
    and "may_create E ''cloud.data''"
    and "write_ok E"
  shows "drop 64 (encrypt_messages (calls (snd (main L E)))) = replicate 32 0 \<and>
         files (snd (main L E)) ''cloud.data'' =
           Some (record_bytes L (session_params L) (ciphertexts1 L E) @
                 record_bytes L (session_params L) (ciphertexts2 L E) @
                 record_bytes L (session_params L)
                   (encryptions L (generated_key L E) (replicate 32 0) (generator2 L E)))"
  using main_transport_file [OF assms]
  by (simp add: main_encrypt_messages transport_bytes_records ciphertexts3_def plaintext3_def
      messages_zero)

theorem carry_vector_zero_witness:
  "files0 toy_env ''secret.key'' = Some [2] \<and>
   new_tfheGateBootstrappingSecretKeySet_fromFile toy [2] = Some 2 \<and>
   may_create toy_env ''cloud.data'' \<and> write_ok toy_env \<and>
   drop 64 (encrypt_messages (calls (snd (main toy toy_env)))) = replicate 32 0"
  using carry_vector_zero [OF toy_env_values(1-4)]
  by (simp add: toy_env_values)

subsection \<open>C7: failures of the file operations\<close>

text \<open>
  C7, as the code has it. \<^verbatim>\<open>main\<close> tests no result of \<^verbatim>\<open>fopen\<close> and no result of a write
  or a close, and prints the greeting and nothing else. How a run ends depends on the
  key file, on what the library makes of it and on whether \<^verbatim>\<open>cloud.data\<close> can be
  created, not on whether the writes succeed: when \<^verbatim>\<open>secret.key\<close> does not open, the
  null stream is passed to the key load; when \<^verbatim>\<open>cloud.data\<close> does not open, the null
  stream is passed to the first ciphertext export; otherwise \<^verbatim>\<open>main\<close> returns 0.
\<close>

theorem failures_not_checked:
  "fst (main L E) =
     (case files0 E ''secret.key'' of
        None \<Rightarrow> Undefined_behaviour
      | Some bs \<Rightarrow>
          (case new_tfheGateBootstrappingSecretKeySet_fromFile L bs of
             None \<Rightarrow> Library_stopped
           | Some bk \<Rightarrow> if may_create E ''cloud.data'' then Returned 0 else Undefined_behaviour)) \<and>
   stdout (snd (main L E)) = greeting \<and>
   calls (snd (main L E)) = calls_until_greeting L E @
     (case files0 E ''secret.key'' of
        None \<Rightarrow>
          [Call_fopen ''secret.key'' ''rb'',
           Call_new_tfheGateBootstrappingSecretKeySet_fromFile None]
      | Some bs \<Rightarrow>
          (case new_tfheGateBootstrappingSecretKeySet_fromFile L bs of
             None \<Rightarrow>
               [Call_fopen ''secret.key'' ''rb'',
                Call_new_tfheGateBootstrappingSecretKeySet_fromFile (Some ''secret.key'')]
           | Some bk \<Rightarrow>
               calls_key_file @ [Call_fopen ''cloud.data'' ''wb''] @
               (if may_create E ''cloud.data'' then
                  export_calls ''cloud.data'' (session_params L) (ciphertexts1 L E) @
                  export_calls ''cloud.data'' (session_params L) (ciphertexts2 L E) @
                  export_calls ''cloud.data'' (session_params L) (ciphertexts3 L E) @
                  calls_cleanup L E
                else
                  [Call_export_gate_bootstrapping_ciphertext_toFile None (ciphertexts1 L E ! 0)
                     (session_params L)])))"
  by (rule main_cases [where E = E and L = L]) (simp_all add: main_closed)

text \<open>
  C7, as stated (a failed open or write ends the session and is reported with its path
  and error, and nothing goes on after a failed open), fails: without a key file the
  run goes on to the key load with a null stream and prints only the greeting, and
  with failing writes \<^verbatim>\<open>main\<close> returns 0 and prints only the greeting.
\<close>

theorem failures_not_checked_counterexample:
  "files0 toy_env_no_key ''secret.key'' = None \<and>
   fst (main toy toy_env_no_key) = Undefined_behaviour \<and>
   last (calls (snd (main toy toy_env_no_key))) =
     Call_new_tfheGateBootstrappingSecretKeySet_fromFile None \<and>
   stdout (snd (main toy toy_env_no_key)) = greeting \<and>
   \<not> write_ok (toy_env\<lparr>write_ok := False\<rparr>) \<and>
   fst (main toy (toy_env\<lparr>write_ok := False\<rparr>)) = Returned 0 \<and>
   stdout (snd (main toy (toy_env\<lparr>write_ok := False\<rparr>))) = greeting"
proof -
  have a: "files0 toy_env_no_key ''secret.key'' = None"
    by (simp add: toy_env_no_key_def)
  have b: "files0 (toy_env\<lparr>write_ok := False\<rparr>) ''secret.key'' = Some [2]"
    "may_create (toy_env\<lparr>write_ok := False\<rparr>) ''cloud.data''"
    by (simp_all add: toy_env_def)
  show ?thesis
    by (simp add: a main_no_key_file [OF a] main_returns [OF b(1) toy_env_values(2) b(2)])
qed

subsection \<open>C8: the files that main writes\<close>

text \<open>
  C8. A run leaves every file other than \<^verbatim>\<open>cloud.data\<close> as it found it, \<^verbatim>\<open>cloud.key\<close>
  included. \<^verbatim>\<open>cloud.data\<close> is left as it was, or emptied, or holds the 96 ciphertext
  records and nothing else. The only files opened are \<^verbatim>\<open>secret.key\<close>, for reading, and
  then \<^verbatim>\<open>cloud.data\<close>, for writing. The standard output receives the greeting and nothing
  else.
\<close>

theorem only_transport_file_written:
  "path \<noteq> ''cloud.data'' \<Longrightarrow>
   files (snd (main L E)) path = files0 E path \<and>
   (files (snd (main L E)) ''cloud.data'' = files0 E ''cloud.data'' \<or>
    files (snd (main L E)) ''cloud.data'' = Some [] \<or>
    files (snd (main L E)) ''cloud.data'' = Some (transport_bytes L E)) \<and>
   (fopen_calls (calls (snd (main L E))) = [(''secret.key'', ''rb'')] \<or>
    fopen_calls (calls (snd (main L E))) = [(''secret.key'', ''rb''), (''cloud.data'', ''wb'')]) \<and>
   stdout (snd (main L E)) = greeting"
  using main_files_frame [of path L E] main_transport_content [of L E] main_fopen_calls [of L E]
    main_stdout [of L E]
  by blast

theorem only_transport_file_written_witness:
  "''cloud.key'' \<noteq> ''cloud.data'' \<and>
   files (snd (main toy toy_env)) ''cloud.key'' = files0 toy_env ''cloud.key''"
proof -
  have h: "''cloud.key'' \<noteq> ''cloud.data''" by simp
  show ?thesis
    using h only_transport_file_written [OF h, of toy toy_env] by blast
qed

subsection \<open>C9: the fixed configuration\<close>

text \<open>
  C9. In every run, whatever the surroundings, the first three calls ask for the
  parameters of security level 110, seed the generator with the three values 314, 1592
  and 657, and generate the key for these parameters; the messages encrypted are the
  bits of 1073741823, then the bits of 1073741823, then the bits of 0.
\<close>

theorem fixed_configuration:
  "take 3 (calls (snd (main L E))) =
     [Call_new_default_gate_bootstrapping_parameters 110,
      Call_tfhe_random_generator_setSeed [314, 1592, 657] 3,
      Call_new_random_gate_bootstrapping_secret_keyset
        (new_default_gate_bootstrapping_parameters L 110)] \<and>
   encrypt_messages (calls (snd (main L E))) =
     toBits 1073741823 @ toBits 1073741823 @ toBits 0"
proof -
  have "take 3 (calls (snd (main L E))) = take 3 (calls_until_greeting L E)"
    by (rule main_cases [where E = E and L = L])
      (simp_all add: main_closed calls_until_greeting_def)
  then show ?thesis
    by (simp add: main_encrypt_messages messages_toBits calls_until_greeting_def
        minimum_lambda_def seed_def session_params_def plaintext1_def plaintext2_def plaintext3_def)
qed

subsection \<open>C10: the bytes of the key file\<close>

text \<open>
  C10. Of two runs that differ only in the bytes of \<^verbatim>\<open>secret.key\<close>, both accepted by
  the library, the second leaves the same bytes in \<^verbatim>\<open>cloud.data\<close> as the first, ends
  the same way, prints the same and makes the same calls.
\<close>

theorem key_file_bytes_no_influence:
  assumes "files0 E ''secret.key'' = Some b0"
    and "new_tfheGateBootstrappingSecretKeySet_fromFile L b0 = Some k0"
    and "new_tfheGateBootstrappingSecretKeySet_fromFile L b1 = Some k1"
  shows "files (snd (main L (E\<lparr>files0 := (files0 E)(''secret.key'' \<mapsto> b1)\<rparr>))) ''cloud.data'' =
           files (snd (main L E)) ''cloud.data'' \<and>
         fst (main L (E\<lparr>files0 := (files0 E)(''secret.key'' \<mapsto> b1)\<rparr>)) = fst (main L E) \<and>
         stdout (snd (main L (E\<lparr>files0 := (files0 E)(''secret.key'' \<mapsto> b1)\<rparr>))) =
           stdout (snd (main L E)) \<and>
         calls (snd (main L (E\<lparr>files0 := (files0 E)(''secret.key'' \<mapsto> b1)\<rparr>))) =
           calls (snd (main L E))"
proof -
  let ?E' = "E\<lparr>files0 := (files0 E)(''secret.key'' \<mapsto> b1)\<rparr>"
  have g: "generator0 ?E' = generator0 E" by simp
  have k': "files0 ?E' ''secret.key'' = Some b1" by simp
  note same = session_values_generator0 [OF g, of L]
  show ?thesis
  proof (cases "may_create E ''cloud.data''")
    case True
    then have c': "may_create ?E' ''cloud.data''" by simp
    show ?thesis
      by (simp add: main_returns [OF assms(1,2) True] main_returns [OF k' assms(3) c'] same)
  next
    case False
    then have c': "\<not> may_create ?E' ''cloud.data''" by simp
    show ?thesis
      by (simp add: main_no_transport_file [OF assms(1,2) False]
          main_no_transport_file [OF k' assms(3) c'] same)
  qed
qed

theorem key_file_bytes_no_influence_witness:
  "files0 toy_env ''secret.key'' = Some [2] \<and>
   new_tfheGateBootstrappingSecretKeySet_fromFile toy [2] = Some 2 \<and>
   new_tfheGateBootstrappingSecretKeySet_fromFile toy [5] = Some 5 \<and>
   files (snd (main toy (toy_env\<lparr>files0 := (files0 toy_env)(''secret.key'' \<mapsto> [5])\<rparr>))) ''cloud.data'' =
     files (snd (main toy toy_env)) ''cloud.data''"
proof -
  have h: "new_tfheGateBootstrappingSecretKeySet_fromFile toy [5] = Some 5"
    by (simp add: toy_def)
  show ?thesis
    using h toy_env_values(1,2) key_file_bytes_no_influence [OF toy_env_values(1,2) h]
    by blast
qed

end
